theory Spec2Isabelle
  imports Complex_Main "HOL-Library.Sublist"
begin

section \<open>Python values and their string renderings\<close>

text \<open>
  The harness in \<^verbatim>\<open>pyrosimple/scripts/base.py\<close> passes configuration values and keyword
  arguments through \<^verbatim>\<open>str()\<close> and f-strings. The values that occur are \<^verbatim>\<open>None\<close>,
  booleans, integers, strings, lists of such values, and classes used as value-coercion
  types (\<^verbatim>\<open>int\<close>, \<^verbatim>\<open>float\<close>, ...), which are represented by their name. A Python string is
  a \<^typ>\<open>string\<close>; each \<^typ>\<open>char\<close> stands for the code point of the same number, so the
  model covers the code points below 256.
\<close>

datatype pyval =
    PNone
  | PBool bool
  | PInt int
  | PStr string
  | PList "pyval list"
  | PType string

text \<open>Truth value testing, as in \<^verbatim>\<open>if x:\<close>.\<close>

fun truthy :: "pyval \<Rightarrow> bool" where
  "truthy PNone = False"
| "truthy (PBool b) = b"
| "truthy (PInt i) = (i \<noteq> 0)"
| "truthy (PStr s) = (s \<noteq> [])"
| "truthy (PList xs) = (xs \<noteq> [])"
| "truthy (PType n) = True"

text \<open>\<^verbatim>\<open>sep.join(xs)\<close>.\<close>

fun py_join :: "string \<Rightarrow> string list \<Rightarrow> string" where
  "py_join sep [] = []"
| "py_join sep [x] = x"
| "py_join sep (x # y # ys) = x @ sep @ py_join sep (y # ys)"

text \<open>Decimal rendering of an integer, \<^verbatim>\<open>str(i)\<close>.\<close>

definition digit_char :: "nat \<Rightarrow> char" where
  "digit_char d = ''0123456789'' ! (d mod 10)"

fun str_nat :: "nat \<Rightarrow> string" where
  "str_nat n = (if n < 10 then [digit_char n] else str_nat (n div 10) @ [digit_char (n mod 10)])"

definition str_int :: "int \<Rightarrow> string" where
  "str_int i = (if i < 0 then CHR ''-'' # str_nat (nat (- i)) else str_nat (nat i))"

text \<open>
  \<^verbatim>\<open>repr\<close> of a string: the quote is the double quote when the string holds a single quote
  and no double quote, the single quote otherwise; the quote and the backslash are
  escaped, tab, newline and carriage return have their letter escapes, and every other
  character that is not printable is written \<^verbatim>\<open>\xNN\<close> with two lower-case hexadecimal
  digits. Below 256 the characters that are not printable are the controls
  (0 to 31, 127 to 159), the no-break space (160) and the soft hyphen (173).
\<close>

definition hex_char :: "nat \<Rightarrow> char" where
  "hex_char d = ''0123456789abcdef'' ! (d mod 16)"

definition hex_escape :: "nat \<Rightarrow> string" where
  "hex_escape n = [CHR 0x5C, CHR ''x'', hex_char (n div 16), hex_char n]"

definition printable :: "nat \<Rightarrow> bool" where
  "printable n = (32 \<le> n \<and> n < 127 \<or> 160 < n \<and> n \<noteq> 173)"

definition repr_char :: "char \<Rightarrow> char \<Rightarrow> string" where
  "repr_char quote c =
     (if c = quote \<or> c = CHR 0x5C then [CHR 0x5C, c]
      else if c = CHR 0x09 then [CHR 0x5C, CHR ''t'']
      else if c = CHR 0x0A then [CHR 0x5C, CHR ''n'']
      else if c = CHR 0x0D then [CHR 0x5C, CHR ''r'']
      else if printable (of_char c) then [c]
      else hex_escape (of_char c))"

definition repr_str :: "string \<Rightarrow> string" where
  "repr_str s =
     (let quote = (if CHR 0x27 \<in> set s \<and> CHR 0x22 \<notin> set s then CHR 0x22 else CHR 0x27)
      in quote # concat (map (repr_char quote) s) @ [quote])"

fun py_repr :: "pyval \<Rightarrow> string" where
  "py_repr PNone = ''None''"
| "py_repr (PBool b) = (if b then ''True'' else ''False'')"
| "py_repr (PInt i) = str_int i"
| "py_repr (PStr s) = repr_str s"
| "py_repr (PList xs) = ''['' @ py_join '', '' (map py_repr xs) @ '']''"
| "py_repr (PType n) = ''<class '' @ repr_str n @ ''>''"

text \<open>\<^verbatim>\<open>str(v)\<close>: a string is itself, every other value is rendered by \<^verbatim>\<open>repr\<close>.\<close>

fun py_str :: "pyval \<Rightarrow> string" where
  "py_str (PStr s) = s"
| "py_str v = py_repr v"

text \<open>
  \<^verbatim>\<open>s.replace(old, new)\<close> for a non-empty \<open>old\<close>: the occurrences are replaced from left
  to right and do not overlap. The harness calls it with \<^verbatim>\<open>"--"\<close> and \<^verbatim>\<open>"-"\<close> only.
\<close>

fun py_replace :: "string \<Rightarrow> string \<Rightarrow> string \<Rightarrow> string" where
  "py_replace old new [] = []"
| "py_replace old new (c # cs) =
     (if old \<noteq> [] \<and> prefix old (c # cs)
      then new @ py_replace old new (drop (length old) (c # cs))
      else c # py_replace old new cs)"

section \<open>Connection aliases\<close>

text \<open>
  \<^verbatim>\<open>config.settings["CONNECTIONS"]\<close> maps an alias name to one endpoint string or to a
  list of endpoint strings. The table is read only during a run and is a parameter of
  the two lookup methods of \<^verbatim>\<open>ScriptBaseWithConfig\<close>.
\<close>

datatype alias_value = Endpoint string | Endpoints "string list"

type_synonym connections = "string \<rightharpoonup> alias_value"

fun pyval_of :: "alias_value \<Rightarrow> pyval" where
  "pyval_of (Endpoint s) = PStr s"
| "pyval_of (Endpoints xs) = PList (map PStr xs)"

text \<open>
  \<^verbatim>\<open>
  def lookup_connection_alias(self, url: str) -> str:
      if url in config.settings["CONNECTIONS"]:
          return str(config.settings["CONNECTIONS"][url])
      return url
  \<close>
\<close>

definition lookup_connection_alias :: "connections \<Rightarrow> string \<Rightarrow> string" where
  "lookup_connection_alias conns url =
     (case conns url of
        Some v \<Rightarrow> py_str (pyval_of v)
      | None \<Rightarrow> url)"

text \<open>
  \<^verbatim>\<open>
  def multi_connection_lookup(self, url: str) -> Iterator[str]:
      val = config.settings["CONNECTIONS"].get(url, [url])
      if isinstance(val, list):
          for v in val:
              yield self.lookup_connection_alias(v)
      else:
          yield self.lookup_connection_alias(val)
  \<close>
  The generator is finite; the model returns the list of the values it yields, in order.
\<close>

definition multi_connection_lookup :: "connections \<Rightarrow> string \<Rightarrow> string list" where
  "multi_connection_lookup conns url =
     (let val = (case conns url of Some v \<Rightarrow> v | None \<Rightarrow> Endpoints [url])
      in case val of
           Endpoints vs \<Rightarrow> map (lookup_connection_alias conns) vs
         | Endpoint s \<Rightarrow> [lookup_connection_alias conns s])"

section \<open>The run lifecycle\<close>

text \<open>
  Exceptions are values. \<^verbatim>\<open>OSError\<close> carries its \<^verbatim>\<open>errno\<close> attribute (which may be
  \<^verbatim>\<open>None\<close>) and its \<^verbatim>\<open>str()\<close>; \<^verbatim>\<open>SystemExit\<close> carries the code given to \<^verbatim>\<open>sys.exit\<close>.
\<close>

datatype exc =
    LoggableError string
  | KeyboardInterrupt
  | OSError "int option" string
  | SystemExit int
  | KeyError string
  | IndexError
  | TypeError
  | OtherError string

text \<open>\<^verbatim>\<open>errno.EPIPE\<close>; the source's comment reads \<^verbatim>\<open>[Errno 32] Broken pipe?\<close>.\<close>

definition EPIPE :: int where
  "EPIPE = 32"

text \<open>
  What a run does to the outside world, in order: lines printed, records handed to the
  logger, the logging threshold set, and \<^verbatim>\<open>logging.shutdown()\<close>. \<open>LogTotalTime\<close> is the
  call \<^verbatim>\<open>self.LOG.log(self.STD_LOG_LEVEL, "Total time: %.3f seconds.", running_time)\<close>;
  \<open>Traceback x\<close> is \<^verbatim>\<open>print(traceback.format_exc())\<close> while \<open>x\<close> is being handled.
\<close>

datatype event =
    PrintOut string
  | PrintErr string
  | Traceback exc
  | LogCritical string
  | LogDebugOptions
  | SetLevel int
  | LogTotalTime
  | LoggingShutdown

text \<open>The parsed options, as far as the harness reads them.\<close>

record namespace =
  log_level :: "int option"
  args :: "string list"
  url :: "string option"

text \<open>
  The object state set up by \<^verbatim>\<open>__init__\<close>, the \<^verbatim>\<open>SCGI_URL\<close> setting that
  \<^verbatim>\<open>ScriptBaseWithConfig.get_options\<close> overrides, the class of the object
  (\<open>with_config\<close>: \<^verbatim>\<open>ScriptBaseWithConfig\<close> or a subclass of it), and the events so far.
\<close>

record script =
  options :: "namespace option"
  self_args :: "string list option"
  return_code :: int
  engine :: bool
  intermixed_args :: bool
  with_config :: bool
  SCGI_URL :: "string option"
  trace :: "event list"

definition init :: "bool \<Rightarrow> script" where
  "init wc = \<lparr> options = None, self_args = None, return_code = 0, engine = False,
               intermixed_args = False, with_config = wc, SCGI_URL = None, trace = [] \<rparr>"

text \<open>
  The collaborators of one run: the exit codes of \<^verbatim>\<open>pyrosimple.error\<close>, the template
  methods of the subclass, the argument parser, the configuration loader and the engine
  constructor. Each may raise; \<open>mainloop\<close> gives what the subcommand raises, if anything,
  and the value it leaves in \<^verbatim>\<open>self.return_code\<close>.
\<close>

record env =
  EX_SOFTWARE :: int
  EX_TEMPFAIL :: int
  EX_IOERR :: int
  add_options :: "exc option"
  parse_args :: "exc + namespace"
  parse_intermixed_args :: "exc + namespace"
  load_custom_py :: "exc option"
  RtorrentEngine :: "exc option"
  mainloop :: "script \<Rightarrow> exc option \<times> int"

definition emit :: "event \<Rightarrow> script \<Rightarrow> script" where
  "emit ev s = s\<lparr> trace := trace s @ [ev] \<rparr>"

text \<open>
  \<^verbatim>\<open>
  if self.intermixed_args:
      self.options = self.parser.parse_intermixed_args()
  else:
      self.options = self.parser.parse_args()
  \<close>
  A parse failure and the \<^verbatim>\<open>--version\<close> action leave the parser by \<^verbatim>\<open>SystemExit\<close>.
\<close>

definition parse :: "env \<Rightarrow> script \<Rightarrow> exc + namespace" where
  "parse e s = (if intermixed_args s then parse_intermixed_args e else parse_args e)"

text \<open>
  \<^verbatim>\<open>ScriptBase.get_options\<close>: register the logging flags, call the template method
  \<^verbatim>\<open>add_options\<close>, parse, keep the positional arguments, set the logging threshold
  when a level flag was given, and log the options at debug level.
\<close>

definition get_options :: "env \<Rightarrow> script \<Rightarrow> exc option \<times> script" where
  "get_options e s =
     (case add_options e of
        Some x \<Rightarrow> (Some x, s)
      | None \<Rightarrow>
          (case parse e s of
             Inl x \<Rightarrow> (Some x, s)
           | Inr ns \<Rightarrow>
               (let s1 = s\<lparr> options := Some ns \<rparr>;
                    s2 = s1\<lparr> self_args := Some (args ns) \<rparr>;
                    s3 = (case log_level ns of
                            None \<Rightarrow> s2
                          | Some l \<Rightarrow> if l \<noteq> 0 then emit (SetLevel l) s2 else s2)
                in (None, emit LogDebugOptions s3))))"

text \<open>
  \<^verbatim>\<open>
  def get_options(self):
      super().get_options()
      if self.options.url:
          config.settings["SCGI_URL"] = self.options.url
      config.load_custom_py()
      self.engine = rtorrent.RtorrentEngine()
  \<close>
\<close>

definition get_options_with_config :: "env \<Rightarrow> script \<Rightarrow> exc option \<times> script" where
  "get_options_with_config e s =
     (case get_options e s of
        (Some x, s1) \<Rightarrow> (Some x, s1)
      | (None, s1) \<Rightarrow>
          (let s2 = (case options s1 of
                       None \<Rightarrow> s1
                     | Some ns \<Rightarrow>
                         (case url ns of
                            None \<Rightarrow> s1
                          | Some u \<Rightarrow> if u \<noteq> [] then s1\<lparr> SCGI_URL := Some u \<rparr> else s1))
           in case load_custom_py e of
                Some x \<Rightarrow> (Some x, s2)
              | None \<Rightarrow>
                  (case RtorrentEngine e of
                     Some x \<Rightarrow> (Some x, s2)
                   | None \<Rightarrow> (None, s2\<lparr> engine := True \<rparr>))))"

text \<open>\<^verbatim>\<open>self.get_options()\<close>, dispatched on the class of the object.\<close>

definition self_get_options :: "env \<Rightarrow> script \<Rightarrow> exc option \<times> script" where
  "self_get_options e s =
     (if with_config s then get_options_with_config e s else get_options e s)"

text \<open>
  The body of the inner \<^verbatim>\<open>try\<close>: \<^verbatim>\<open>self.get_options()\<close>, then \<^verbatim>\<open>self.mainloop()\<close>.
\<close>

definition try_body :: "env \<Rightarrow> script \<Rightarrow> exc option \<times> script" where
  "try_body e s =
     (case self_get_options e s of
        (Some x, s1) \<Rightarrow> (Some x, s1)
      | (None, s1) \<Rightarrow>
          (case mainloop e s1 of (r, rc) \<Rightarrow> (r, s1\<lparr> return_code := rc \<rparr>)))"

text \<open>
  The \<^verbatim>\<open>except\<close> clauses, in the order of the source. Each handler ends by raising:
  \<^verbatim>\<open>sys.exit\<close> raises \<^verbatim>\<open>SystemExit\<close>, the bare \<^verbatim>\<open>raise\<close> re-raises, and an exception that
  no clause matches propagates.
  \<^verbatim>\<open>
  except error.LoggableError:
      print(traceback.format_exc())
      sys.exit(error.EX_SOFTWARE)
  except KeyboardInterrupt:
      print()
      self.LOG.critical("Aborted by CTRL-C!\n")
      sys.exit(error.EX_TEMPFAIL)
  except OSError as exc:
      if exc.errno == errno.EPIPE:
          print(f"\n{exc}, exiting!\n", file=sys.stderr)
          sys.exit(error.EX_IOERR)
      else:
          raise
  \<close>
\<close>

fun except_clauses :: "env \<Rightarrow> exc \<Rightarrow> script \<Rightarrow> exc \<times> script" where
  "except_clauses e (LoggableError m) s =
     (SystemExit (EX_SOFTWARE e), emit (Traceback (LoggableError m)) s)"
| "except_clauses e KeyboardInterrupt s =
     (SystemExit (EX_TEMPFAIL e),
      emit (LogCritical (''Aborted by CTRL-C!'' @ [CHR 0x0A])) (emit (PrintOut []) s))"
| "except_clauses e (OSError en msg) s =
     (if en = Some EPIPE
      then (SystemExit (EX_IOERR e),
            emit (PrintErr ([CHR 0x0A] @ msg @ '', exiting!'' @ [CHR 0x0A])) s)
      else (OSError en msg, s))"
| "except_clauses e x s = (x, s)"

text \<open>
  \<^verbatim>\<open>
  finally:
      if log_total and self.options:
          running_time = time.time() - self.startup
          self.LOG.log(self.STD_LOG_LEVEL, "Total time: %.3f seconds.", running_time)
      logging.shutdown()
  \<close>
  \<^verbatim>\<open>log_total\<close> is \<^verbatim>\<open>True\<close> throughout, and a parsed \<^verbatim>\<open>Namespace\<close> is always true.
\<close>

definition finally_clause :: "script \<Rightarrow> script" where
  "finally_clause s =
     emit LoggingShutdown (if True \<and> options s \<noteq> None then emit LogTotalTime s else s)"

text \<open>
  \<^verbatim>\<open>run\<close>: the result is the exception that leaves \<^verbatim>\<open>run\<close> (\<open>None\<close> for a normal return)
  and the final state.
  \<^verbatim>\<open>
  if self.return_code:
      sys.exit(self.return_code)
  \<close>
\<close>

definition run :: "env \<Rightarrow> script \<Rightarrow> exc option \<times> script" where
  "run e s =
     (case try_body e s of
        (Some x, s1) \<Rightarrow>
          (case except_clauses e x s1 of (y, s2) \<Rightarrow> (Some y, finally_clause s2))
      | (None, s1) \<Rightarrow>
          (let s2 = finally_clause s1
           in if return_code s2 \<noteq> 0 then (Some (SystemExit (return_code s2)), s2)
              else (None, s2)))"

text \<open>
  The exit status of the process when \<^verbatim>\<open>run\<close> is the last thing the entry point does:
  the code given to \<^verbatim>\<open>sys.exit\<close>, and 0 after a normal return. The status after any other
  uncaught exception is set by the interpreter and is not modelled.
\<close>

fun exit_status :: "exc option \<Rightarrow> int option" where
  "exit_status None = Some 0"
| "exit_status (Some (SystemExit n)) = Some n"
| "exit_status (Some x) = None"

text \<open>
  Environments and options for examples: the exit codes are those of \<^verbatim>\<open>sysexits.h\<close>
  (\<^verbatim>\<open>EX_SOFTWARE\<close> 70, \<^verbatim>\<open>EX_IOERR\<close> 74, \<^verbatim>\<open>EX_TEMPFAIL\<close> 75), nothing but the parser and
  the subcommand can fail, and no flag is given on the command line.
\<close>

definition sysexits_env :: "exc + namespace \<Rightarrow> exc option \<times> int \<Rightarrow> env" where
  "sysexits_env p m =
     \<lparr> EX_SOFTWARE = 70, EX_TEMPFAIL = 75, EX_IOERR = 74, add_options = None,
       parse_args = p, parse_intermixed_args = p, load_custom_py = None,
       RtorrentEngine = None, mainloop = (\<lambda>s. m) \<rparr>"

definition plain_options :: namespace where
  "plain_options = \<lparr> log_level = None, args = [], url = None \<rparr>"

section \<open>Registering value options\<close>

text \<open>
  Keyword arguments are a dictionary from names to values. The argument parser is
  represented by the \<^verbatim>\<open>add_argument\<close> calls it has received, in order: the option
  strings and the keyword arguments of each call.
\<close>

type_synonym kwargs = "string \<rightharpoonup> pyval"

type_synonym parser = "(string list \<times> kwargs) list"

definition add_argument :: "parser \<Rightarrow> string list \<Rightarrow> kwargs \<Rightarrow> parser" where
  "add_argument p names kw = p @ [(names, kw)]"

text \<open>
  \<^verbatim>\<open>[o for o in args if o.startswith("--")][0].replace("--", "").replace("-", "_")\<close>;
  indexing the empty list raises \<^verbatim>\<open>IndexError\<close>.
\<close>

definition derive_dest :: "string list \<Rightarrow> exc + string" where
  "derive_dest pargs =
     (case filter (\<lambda>a. prefix ''--'' a) pargs of
        [] \<Rightarrow> Inl IndexError
      | a # _ \<Rightarrow> Inr (py_replace ''-'' ''_'' (py_replace ''--'' [] a)))"

text \<open>
  \<^verbatim>\<open>
  if "dest" not in kwargs:
      kwargs["dest"] = ...
  \<close>
\<close>

definition set_dest :: "string list \<Rightarrow> kwargs \<Rightarrow> exc + kwargs" where
  "set_dest pargs kw =
     (if kw ''dest'' = None
      then (case derive_dest pargs of
              Inl x \<Rightarrow> Inl x
            | Inr d \<Rightarrow> Inr (kw(''dest'' \<mapsto> PStr d)))
      else Inr kw)"

text \<open>
  \<^verbatim>\<open>
  if "default" in kwargs and kwargs["default"]:
      kwargs["help"] += f" [{kwargs['default']}]"
  \<close>
  A missing \<^verbatim>\<open>help\<close> raises \<^verbatim>\<open>KeyError\<close>. \<^verbatim>\<open>+=\<close> with a string on the right appends to
  a string, extends a list by the characters of the string, and raises \<^verbatim>\<open>TypeError\<close>
  for the other values.
\<close>

definition append_default :: "kwargs \<Rightarrow> exc + kwargs" where
  "append_default kw =
     (case kw ''default'' of
        None \<Rightarrow> Inr kw
      | Some d \<Rightarrow>
          if truthy d
          then (let suffix = '' ['' @ py_str d @ '']''
                in case kw ''help'' of
                     None \<Rightarrow> Inl (KeyError ''help'')
                   | Some (PStr h) \<Rightarrow> Inr (kw(''help'' \<mapsto> PStr (h @ suffix)))
                   | Some (PList xs) \<Rightarrow>
                       Inr (kw(''help'' \<mapsto> PList (xs @ map (\<lambda>c. PStr [c]) suffix)))
                   | Some _ \<Rightarrow> Inl TypeError)
          else Inr kw)"

text \<open>
  \<^verbatim>\<open>
  if "choices" in kwargs:
      del kwargs["type"]
  \<close>
  \<^verbatim>\<open>del\<close> of a missing key raises \<^verbatim>\<open>KeyError\<close>.
\<close>

definition drop_type :: "kwargs \<Rightarrow> exc + kwargs" where
  "drop_type kw =
     (if kw ''choices'' \<noteq> None
      then (if kw ''type'' = None then Inl (KeyError ''type'') else Inr (kw(''type'' := None)))
      else Inr kw)"

text \<open>
  \<^verbatim>\<open>
  def add_value_option(self, *args, **kwargs):
      kwargs["metavar"] = args[-1]
      ...
      self.parser.add_argument(*args[:-1], **kwargs)
  \<close>
  \<^verbatim>\<open>args[-1]\<close> raises \<^verbatim>\<open>IndexError\<close> when no positional argument is given.
\<close>

definition add_value_option :: "parser \<Rightarrow> string list \<Rightarrow> kwargs \<Rightarrow> exc + parser" where
  "add_value_option p pargs kw =
     (if pargs = [] then Inl IndexError
      else case set_dest pargs (kw(''metavar'' \<mapsto> PStr (last pargs))) of
             Inl x \<Rightarrow> Inl x
           | Inr kw1 \<Rightarrow>
               (case append_default kw1 of
                  Inl x \<Rightarrow> Inl x
                | Inr kw2 \<Rightarrow>
                    (case drop_type kw2 of
                       Inl x \<Rightarrow> Inl x
                     | Inr kw3 \<Rightarrow> Inr (add_argument p (butlast pargs) kw3))))"

text \<open>Keyword arguments for examples: a help text, a default and two choices.\<close>

definition format_kwargs :: kwargs where
  "format_kwargs =
     [''help'' \<mapsto> PStr ''output format'', ''default'' \<mapsto> PStr ''json'',
      ''choices'' \<mapsto> PList [PStr ''json'', PStr ''yaml'']]"

section \<open>RPC statistics\<close>

text \<open>
  The values read from the transport layer: three counters and the values of the
  samples of the response-time summary, in order. They are floats; the model takes the
  real numbers they denote. \<^verbatim>\<open>int(x)\<close> truncates towards zero, and \<^verbatim>\<open>round(x, n)\<close> rounds to
  \<open>n\<close> decimal places, ties to even. \<^verbatim>\<open>fmt.human_size\<close> and the rendering of a float in an
  f-string are parameters of \<open>rpc_stats\<close>.
\<close>

record counters =
  request_counter :: real
  request_size_counter :: real
  response_time_summary :: "real list"
  response_size_counter :: real

definition py_int :: "real \<Rightarrow> int" where
  "py_int x = (if x < 0 then \<lceil>x\<rceil> else \<lfloor>x\<rfloor>)"

definition round_half_even :: "real \<Rightarrow> int" where
  "round_half_even x =
     (let f = \<lfloor>x\<rfloor>; d = x - of_int f
      in if d < 1 / 2 then f else if 1 / 2 < d then f + 1 else if even f then f else f + 1)"

definition py_round :: "real \<Rightarrow> nat \<Rightarrow> real" where
  "py_round x n = of_int (round_half_even (x * 10 ^ n)) / 10 ^ n"

text \<open>
  \<^verbatim>\<open>
  def rpc_stats(self) -> str:
      req_num = int(io.scgi.request_counter._value.get())
      req_sz = fmt.human_size(io.scgi.request_size_counter._value.get())
      req_time = round(
          list(io.scgi.response_time_summary._child_samples())[1].value, 3
      )
      resp_sz = fmt.human_size(io.scgi.response_size_counter._value.get())
      return f"{req_num} requests ({req_sz}) in {req_time}s (repsonse {resp_sz})"
  \<close>
  Index 1 of a list with fewer than two samples raises \<^verbatim>\<open>IndexError\<close>.
\<close>

definition rpc_stats ::
  "(real \<Rightarrow> string) \<Rightarrow> (real \<Rightarrow> string) \<Rightarrow> counters \<Rightarrow> exc + string" where
  "rpc_stats human_size float_str c =
     (let req_num = py_int (request_counter c);
          req_sz = human_size (request_size_counter c)
      in case response_time_summary c of
           _ # sample # _ \<Rightarrow>
             (let req_time = py_round sample 3;
                  resp_sz = human_size (response_size_counter c)
              in Inr (str_int req_num @ '' requests ('' @ req_sz @ '') in ''
                      @ float_str req_time @ ''s (repsonse '' @ resp_sz @ '')''))
         | _ \<Rightarrow> Inl IndexError)"

section \<open>Properties of the connection resolver\<close>

lemma repr_str_plain:
  "repr_str ''10.0.0.1:80'' = CHR 0x27 # ''10.0.0.1:80'' @ [CHR 0x27]"
  "repr_str ''10.0.0.2:80'' = CHR 0x27 # ''10.0.0.2:80'' @ [CHR 0x27]"
  by (simp_all add: repr_str_def repr_char_def printable_def Let_def)

text \<open>
  C1, as stated, fails: for an alias whose stored value is a list,
  \<^verbatim>\<open>lookup_connection_alias\<close> returns \<^verbatim>\<open>str\<close> of the list, not the token. With the table
  \<^verbatim>\<open>{"seedbox": ["10.0.0.1:80", "10.0.0.2:80"]}\<close> the token \<^verbatim>\<open>"seedbox"\<close> resolves to the
  string \<^verbatim>\<open>['10.0.0.1:80', '10.0.0.2:80']\<close>.
\<close>

theorem lookup_connection_alias_list_counterexample:
  "lookup_connection_alias
     [''seedbox'' \<mapsto> Endpoints [''10.0.0.1:80'', ''10.0.0.2:80'']] ''seedbox''
   = ''['10.0.0.1:80', '10.0.0.2:80']''
   \<and> lookup_connection_alias
     [''seedbox'' \<mapsto> Endpoints [''10.0.0.1:80'', ''10.0.0.2:80'']] ''seedbox''
   \<noteq> ''seedbox''"
  by (simp add: lookup_connection_alias_def repr_str_plain)

text \<open>
  C1, amended: \<^verbatim>\<open>lookup_connection_alias\<close> returns the token itself when the token is not
  a key of the alias table, the stored value when that value is a single string, and
  the \<^verbatim>\<open>str()\<close> rendering of the stored list (brackets around the comma-separated
  \<^verbatim>\<open>repr\<close> of its entries) when the stored value is a list. It is a total function to
  strings: no case raises.
\<close>

theorem lookup_connection_alias_cases:
  "(conns t = None \<longrightarrow> lookup_connection_alias conns t = t)
   \<and> (\<forall>s. conns t = Some (Endpoint s) \<longrightarrow> lookup_connection_alias conns t = s)
   \<and> (\<forall>xs. conns t = Some (Endpoints xs) \<longrightarrow>
          lookup_connection_alias conns t = ''['' @ py_join '', '' (map repr_str xs) @ '']'')"
  by (simp add: lookup_connection_alias_def comp_def)

theorem lookup_connection_alias_cases_witness:
  "lookup_connection_alias [''home'' \<mapsto> Endpoint ''192.168.1.5:80''] ''office'' = ''office''
   \<and> lookup_connection_alias [''home'' \<mapsto> Endpoint ''192.168.1.5:80''] ''home''
       = ''192.168.1.5:80''
   \<and> lookup_connection_alias [''pair'' \<mapsto> Endpoints [''10.0.0.1:80'', ''10.0.0.2:80'']] ''pair''
       = ''['' @ py_join '', '' (map repr_str [''10.0.0.1:80'', ''10.0.0.2:80'']) @ '']''"
  using lookup_connection_alias_cases [of "[''home'' \<mapsto> Endpoint ''192.168.1.5:80'']" "''office''"]
    lookup_connection_alias_cases [of "[''home'' \<mapsto> Endpoint ''192.168.1.5:80'']" "''home''"]
    lookup_connection_alias_cases
      [of "[''pair'' \<mapsto> Endpoints [''10.0.0.1:80'', ''10.0.0.2:80'']]" "''pair''"]
  by simp




text \<open>
  C5: when the table stores a list of \<open>n\<close> entries under the token,
  \<^verbatim>\<open>multi_connection_lookup\<close> yields \<open>n\<close> elements, the \<open>i\<close>-th being
  \<^verbatim>\<open>lookup_connection_alias\<close> of the \<open>i\<close>-th entry; the empty list yields nothing.
\<close>

theorem multi_connection_lookup_list:
  assumes "conns t = Some (Endpoints xs)"
  shows "multi_connection_lookup conns t = map (lookup_connection_alias conns) xs
         \<and> length (multi_connection_lookup conns t) = length xs
         \<and> (\<forall>i < length xs.
               multi_connection_lookup conns t ! i = lookup_connection_alias conns (xs ! i))
         \<and> (xs = [] \<longrightarrow> multi_connection_lookup conns t = [])"
  using assms by (simp add: multi_connection_lookup_def)

theorem multi_connection_lookup_list_witness:
  "multi_connection_lookup
     [''seedbox'' \<mapsto> Endpoints [''10.0.0.1:80'', ''box2''], ''box2'' \<mapsto> Endpoint ''10.0.0.2:80'']
     ''seedbox'' = [''10.0.0.1:80'', ''10.0.0.2:80'']
   \<and> multi_connection_lookup [''idle'' \<mapsto> Endpoints []] ''idle'' = []"
proof -
  let ?c = "[''seedbox'' \<mapsto> Endpoints [''10.0.0.1:80'', ''box2''],
             ''box2'' \<mapsto> Endpoint ''10.0.0.2:80'']"
  have h: "?c ''seedbox'' = Some (Endpoints [''10.0.0.1:80'', ''box2''])"
    by simp
  have e: "[''idle'' \<mapsto> Endpoints []] ''idle'' = Some (Endpoints [])"
    by simp
  from multi_connection_lookup_list [of ?c "''seedbox''" "[''10.0.0.1:80'', ''box2'']", OF h]
       multi_connection_lookup_list [of "[''idle'' \<mapsto> Endpoints []]" "''idle''" "[]", OF e]
  show ?thesis
    by (simp add: lookup_connection_alias_def)
qed

text \<open>
  C6: for a token that is not a key of the alias table, \<^verbatim>\<open>multi_connection_lookup\<close>
  yields exactly one element, the token itself.
\<close>

theorem multi_connection_lookup_absent:
  assumes "conns t = None"
  shows "multi_connection_lookup conns t = [t]"
  using assms by (simp add: multi_connection_lookup_def lookup_connection_alias_def)

theorem multi_connection_lookup_absent_witness:
  "[''home'' \<mapsto> Endpoint ''192.168.1.5:80''] ''office'' = None
   \<and> multi_connection_lookup [''home'' \<mapsto> Endpoint ''192.168.1.5:80''] ''office'' = [''office'']"
proof -
  have h: "[''home'' \<mapsto> Endpoint ''192.168.1.5:80''] ''office'' = None"
    by simp
  from multi_connection_lookup_absent
         [of "[''home'' \<mapsto> Endpoint ''192.168.1.5:80'']" "''office''", OF h] h
  show ?thesis
    by simp
qed

section \<open>Properties of the run lifecycle\<close>

lemma trace_emit: "trace (emit ev s) = trace s @ [ev]"
  by (simp add: emit_def)

lemma options_emit: "options (emit ev s) = options s"
  by (simp add: emit_def)

lemma return_code_emit: "return_code (emit ev s) = return_code s"
  by (simp add: emit_def)

lemma get_options_effect:
  assumes "get_options e s = (r, s1)"
  shows "count_list (trace s1) LogTotalTime = count_list (trace s) LogTotalTime"
    and "count_list (trace s1) LoggingShutdown = count_list (trace s) LoggingShutdown"
    and "options s = None \<Longrightarrow>
           (options s1 \<noteq> None) = (add_options e = None \<and> \<not> isl (parse e s))"
  using assms
  by (cases "add_options e"; cases "parse e s";
      auto simp: get_options_def Let_def trace_emit options_emit
           split: option.splits if_splits)+

lemma get_options_with_config_effect:
  assumes "get_options_with_config e s = (r, s1)"
  shows "count_list (trace s1) LogTotalTime = count_list (trace s) LogTotalTime"
    and "count_list (trace s1) LoggingShutdown = count_list (trace s) LoggingShutdown"
    and "options s = None \<Longrightarrow>
           (options s1 \<noteq> None) = (add_options e = None \<and> \<not> isl (parse e s))"
proof -
  obtain r0 s0 where g: "get_options e s = (r0, s0)"
    by (cases "get_options e s")
  from assms g have t: "trace s1 = trace s0" and o: "options s1 = options s0"
    by (auto simp: get_options_with_config_def Let_def split: option.splits if_splits)
  from t get_options_effect(1) [OF g]
  show "count_list (trace s1) LogTotalTime = count_list (trace s) LogTotalTime"
    by simp
  from t get_options_effect(2) [OF g]
  show "count_list (trace s1) LoggingShutdown = count_list (trace s) LoggingShutdown"
    by simp
  assume "options s = None"
  with o get_options_effect(3) [OF g]
  show "(options s1 \<noteq> None) = (add_options e = None \<and> \<not> isl (parse e s))"
    by simp
qed

lemma try_body_effect:
  assumes "try_body e s = (r, s1)"
  shows "count_list (trace s1) LogTotalTime = count_list (trace s) LogTotalTime"
    and "count_list (trace s1) LoggingShutdown = count_list (trace s) LoggingShutdown"
    and "options s = None \<Longrightarrow>
           (options s1 \<noteq> None) = (add_options e = None \<and> \<not> isl (parse e s))"
proof -
  obtain r0 s0 where g: "self_get_options e s = (r0, s0)"
    by (cases "self_get_options e s")
  from assms g have t: "trace s1 = trace s0" and o: "options s1 = options s0"
    by (auto simp: try_body_def split: option.splits prod.splits)
  have g1: "count_list (trace s0) LogTotalTime = count_list (trace s) LogTotalTime"
    and g2: "count_list (trace s0) LoggingShutdown = count_list (trace s) LoggingShutdown"
    and g3: "options s = None \<Longrightarrow>
           (options s0 \<noteq> None) = (add_options e = None \<and> \<not> isl (parse e s))"
    using g get_options_effect [of e s r0 s0] get_options_with_config_effect [of e s r0 s0]
    by (auto simp: self_get_options_def split: if_splits)
  from t g1 show "count_list (trace s1) LogTotalTime = count_list (trace s) LogTotalTime"
    by simp
  from t g2 show "count_list (trace s1) LoggingShutdown = count_list (trace s) LoggingShutdown"
    by simp
  assume "options s = None"
  with o g3 show "(options s1 \<noteq> None) = (add_options e = None \<and> \<not> isl (parse e s))"
    by simp
qed

lemma except_clauses_effect:
  assumes "except_clauses e x s = (y, s1)"
  shows "count_list (trace s1) LogTotalTime = count_list (trace s) LogTotalTime"
    and "count_list (trace s1) LoggingShutdown = count_list (trace s) LoggingShutdown"
    and "options s1 = options s"
  using assms
  by (cases x; auto simp: trace_emit options_emit split: if_splits)+

lemma finally_clause_effect:
  "count_list (trace (finally_clause s)) LogTotalTime
     = count_list (trace s) LogTotalTime + (if options s \<noteq> None then 1 else 0)"
  "count_list (trace (finally_clause s)) LoggingShutdown
     = count_list (trace s) LoggingShutdown + 1"
  "last (trace (finally_clause s)) = LoggingShutdown"
  by (simp_all add: finally_clause_def trace_emit options_emit)

lemma run_state:
  "\<exists>r s1 s2. try_body e s = (r, s1) \<and> snd (run e s) = finally_clause s2
      \<and> count_list (trace s2) LogTotalTime = count_list (trace s1) LogTotalTime
      \<and> count_list (trace s2) LoggingShutdown = count_list (trace s1) LoggingShutdown
      \<and> options s2 = options s1"
proof (cases "try_body e s")
  case (Pair r s1)
  show ?thesis
  proof (cases r)
    case None
    with Pair show ?thesis by (fastforce simp: run_def Let_def)
  next
    case (Some x)
    obtain y s2 where h: "except_clauses e x s1 = (y, s2)"
      by (cases "except_clauses e x s1")
    with Pair Some except_clauses_effect [OF h] show ?thesis
      by (fastforce simp: run_def)
  qed
qed

text \<open>
  C3: in a run of a freshly initialised script object, the total-time record is logged
  once when option parsing completed (the registration of the options raised nothing and
  the parser returned a namespace) and not at all otherwise (a parse failure and
  \<^verbatim>\<open>--version\<close> leave the parser by \<^verbatim>\<open>SystemExit\<close>); \<^verbatim>\<open>logging.shutdown()\<close> runs exactly
  once and is the last action, whatever \<^verbatim>\<open>get_options\<close> and the subcommand raise. The
  record is handed to the logger at \<^verbatim>\<open>STD_LOG_LEVEL\<close>; whether a handler prints it is
  decided by the logging threshold, outside \<^verbatim>\<open>run\<close>.
\<close>

theorem run_finalization:
  assumes "options s = None" and "trace s = []"
  shows "count_list (trace (snd (run e s))) LogTotalTime
           = (if add_options e = None \<and> \<not> isl (parse e s) then 1 else 0)
         \<and> count_list (trace (snd (run e s))) LoggingShutdown = 1
         \<and> last (trace (snd (run e s))) = LoggingShutdown"
proof -
  obtain r s1 s2 where b: "try_body e s = (r, s1)"
    and f: "snd (run e s) = finally_clause s2"
    and c1: "count_list (trace s2) LogTotalTime = count_list (trace s1) LogTotalTime"
    and c2: "count_list (trace s2) LoggingShutdown = count_list (trace s1) LoggingShutdown"
    and o: "options s2 = options s1"
    using run_state [of e s] by blast
  from try_body_effect [OF b] assms
  have "count_list (trace s1) LogTotalTime = 0"
    and "count_list (trace s1) LoggingShutdown = 0"
    and "(options s1 \<noteq> None) = (add_options e = None \<and> \<not> isl (parse e s))"
    by simp_all
  with f c1 c2 o show ?thesis
    by (simp add: finally_clause_effect)
qed

theorem run_finalization_witness:
  "trace (snd (run (sysexits_env (Inl (SystemExit 2)) (None, 0)) (init False)))
     = [LoggingShutdown]
   \<and> count_list (trace (snd (run (sysexits_env (Inr plain_options) (Some KeyboardInterrupt, 0))
        (init True)))) LogTotalTime = 1
   \<and> count_list (trace (snd (run (sysexits_env (Inr plain_options) (Some KeyboardInterrupt, 0))
        (init True)))) LoggingShutdown = 1"
proof -
  have i: "options (init b) = None" "trace (init b) = []" for b
    by (simp_all add: init_def)
  have "trace (snd (run (sysexits_env (Inl (SystemExit 2)) (None, 0)) (init False)))
          = [LoggingShutdown]"
    by (simp add: run_def try_body_def self_get_options_def get_options_def parse_def
        sysexits_env_def init_def finally_clause_def emit_def)
  with run_finalization
         [of "init True" "sysexits_env (Inr plain_options) (Some KeyboardInterrupt, 0)"] i
  show ?thesis
    by (simp add: parse_def sysexits_env_def)
qed

text \<open>
  C4: when the body of the \<^verbatim>\<open>try\<close> raises, a \<^verbatim>\<open>LoggableError\<close> has its traceback printed
  and \<^verbatim>\<open>run\<close> exits with \<^verbatim>\<open>EX_SOFTWARE\<close>; a \<^verbatim>\<open>KeyboardInterrupt\<close> prints an empty line and
  logs the aborted notice, with no traceback, and exits with \<^verbatim>\<open>EX_TEMPFAIL\<close>; an \<^verbatim>\<open>OSError\<close>
  with \<^verbatim>\<open>errno\<close> \<^verbatim>\<open>EPIPE\<close> prints a one-line notice on standard error, with no traceback,
  and exits with \<^verbatim>\<open>EX_IOERR\<close>; every other \<^verbatim>\<open>OSError\<close> leaves \<^verbatim>\<open>run\<close> as it was raised,
  with nothing printed. In each case the \<^verbatim>\<open>finally\<close> clause runs afterwards.
\<close>

theorem run_failure_classification:
  assumes "try_body e s = (Some x, s1)"
  shows "(\<forall>m. x = LoggableError m \<longrightarrow>
            run e s = (Some (SystemExit (EX_SOFTWARE e)),
                       finally_clause (emit (Traceback x) s1)))
         \<and> (x = KeyboardInterrupt \<longrightarrow>
            run e s = (Some (SystemExit (EX_TEMPFAIL e)),
                       finally_clause
                         (emit (LogCritical (''Aborted by CTRL-C!'' @ [CHR 0x0A]))
                            (emit (PrintOut []) s1))))
         \<and> (\<forall>msg. x = OSError (Some EPIPE) msg \<longrightarrow>
            run e s = (Some (SystemExit (EX_IOERR e)),
                       finally_clause
                         (emit (PrintErr ([CHR 0x0A] @ msg @ '', exiting!'' @ [CHR 0x0A])) s1)))
         \<and> (\<forall>en msg. x = OSError en msg \<and> en \<noteq> Some EPIPE \<longrightarrow>
            run e s = (Some x, finally_clause s1))"
  using assms by (simp add: run_def)

text \<open>
  C7: when \<^verbatim>\<open>get_options\<close> and the subcommand return normally and the subcommand leaves
  \<open>rc\<close> in \<^verbatim>\<open>self.return_code\<close>, \<^verbatim>\<open>run\<close> ends with \<^verbatim>\<open>sys.exit(rc)\<close> when \<open>rc\<close> is not zero and
  returns normally otherwise, so the exit status is \<open>rc\<close> in both cases. When the
  subcommand raises, \<^verbatim>\<open>run\<close> is left by one of the three classified exits or by the
  exception itself, before the return code is looked at.
\<close>

theorem run_return_code:
  assumes "self_get_options e s = (None, s0)"
  shows "(mainloop e s0 = (None, rc) \<longrightarrow>
            fst (run e s) = (if rc \<noteq> 0 then Some (SystemExit rc) else None)
            \<and> exit_status (fst (run e s)) = Some rc)
         \<and> (mainloop e s0 = (Some x, rc) \<longrightarrow>
            fst (run e s) \<in> {Some (SystemExit (EX_SOFTWARE e)), Some (SystemExit (EX_TEMPFAIL e)),
                              Some (SystemExit (EX_IOERR e)), Some x})"
proof (intro conjI impI)
  assume m: "mainloop e s0 = (None, rc)"
  with assms have b: "try_body e s = (None, s0\<lparr> return_code := rc \<rparr>)"
    by (simp add: try_body_def)
  have r: "return_code (finally_clause t) = return_code t" for t
    by (simp add: finally_clause_def emit_def)
  from b r show "fst (run e s) = (if rc \<noteq> 0 then Some (SystemExit rc) else None)"
    by (simp add: run_def Let_def)
  then show "exit_status (fst (run e s)) = Some rc"
    by simp
next
  assume m: "mainloop e s0 = (Some x, rc)"
  with assms have b: "try_body e s = (Some x, s0\<lparr> return_code := rc \<rparr>)"
    by (simp add: try_body_def)
  then show "fst (run e s) \<in> {Some (SystemExit (EX_SOFTWARE e)), Some (SystemExit (EX_TEMPFAIL e)),
                              Some (SystemExit (EX_IOERR e)), Some x}"
    by (cases x) (auto simp: run_def split: prod.splits if_splits)
qed

lemma try_body_sysexits:
  "try_body (sysexits_env (Inr plain_options) (r, rc)) (init False)
     = (r, \<lparr> options = Some plain_options, self_args = Some [], return_code = rc,
             engine = False, intermixed_args = False, with_config = False,
             SCGI_URL = None, trace = [LogDebugOptions] \<rparr>)"
  by (simp add: try_body_def self_get_options_def get_options_def parse_def
      sysexits_env_def init_def plain_options_def emit_def)

lemma self_get_options_sysexits:
  "self_get_options (sysexits_env (Inr plain_options) m) (init False)
     = (None, \<lparr> options = Some plain_options, self_args = Some [], return_code = 0,
                engine = False, intermixed_args = False, with_config = False,
                SCGI_URL = None, trace = [LogDebugOptions] \<rparr>)"
  by (simp add: self_get_options_def get_options_def parse_def
      sysexits_env_def init_def plain_options_def emit_def)

lemma sysexits_env_sel:
  "EX_SOFTWARE (sysexits_env p m) = 70"
  "EX_TEMPFAIL (sysexits_env p m) = 75"
  "EX_IOERR (sysexits_env p m) = 74"
  "mainloop (sysexits_env p m) s = m"
  by (simp_all add: sysexits_env_def)

theorem run_failure_classification_witness:
  "fst (run (sysexits_env (Inr plain_options) (Some (LoggableError ''bad config''), 0))
          (init False)) = Some (SystemExit 70)
   \<and> trace (snd (run (sysexits_env (Inr plain_options) (Some (LoggableError ''bad config''), 0))
          (init False)))
       = [LogDebugOptions, Traceback (LoggableError ''bad config''), LogTotalTime,
          LoggingShutdown]
   \<and> fst (run (sysexits_env (Inr plain_options) (Some KeyboardInterrupt, 0)) (init False))
       = Some (SystemExit 75)
   \<and> trace (snd (run (sysexits_env (Inr plain_options) (Some KeyboardInterrupt, 0))
          (init False)))
       = [LogDebugOptions, PrintOut [], LogCritical (''Aborted by CTRL-C!'' @ [CHR 0x0A]),
          LogTotalTime, LoggingShutdown]
   \<and> fst (run (sysexits_env (Inr plain_options)
               (Some (OSError (Some 32) ''[Errno 32] Broken pipe''), 0)) (init False))
       = Some (SystemExit 74)
   \<and> trace (snd (run (sysexits_env (Inr plain_options)
               (Some (OSError (Some 32) ''[Errno 32] Broken pipe''), 0)) (init False)))
       = [LogDebugOptions,
          PrintErr ([CHR 0x0A] @ ''[Errno 32] Broken pipe, exiting!'' @ [CHR 0x0A]),
          LogTotalTime, LoggingShutdown]
   \<and> fst (run (sysexits_env (Inr plain_options)
               (Some (OSError (Some 2) ''[Errno 2] No such file or directory''), 0))
             (init False))
       = Some (OSError (Some 2) ''[Errno 2] No such file or directory'')
   \<and> trace (snd (run (sysexits_env (Inr plain_options)
               (Some (OSError (Some 2) ''[Errno 2] No such file or directory''), 0))
             (init False)))
       = [LogDebugOptions, LogTotalTime, LoggingShutdown]"
  using
    run_failure_classification [OF try_body_sysexits [of "Some (LoggableError ''bad config'')" 0]]
    run_failure_classification [OF try_body_sysexits [of "Some KeyboardInterrupt" 0]]
    run_failure_classification
      [OF try_body_sysexits [of "Some (OSError (Some 32) ''[Errno 32] Broken pipe'')" 0]]
    run_failure_classification
      [OF try_body_sysexits
            [of "Some (OSError (Some 2) ''[Errno 2] No such file or directory'')" 0]]
  by (simp add: sysexits_env_sel EPIPE_def finally_clause_def emit_def)

theorem run_return_code_witness:
  "fst (run (sysexits_env (Inr plain_options) (None, 3)) (init False)) = Some (SystemExit 3)
   \<and> exit_status (fst (run (sysexits_env (Inr plain_options) (None, 3)) (init False))) = Some 3
   \<and> fst (run (sysexits_env (Inr plain_options) (None, 0)) (init False)) = None
   \<and> exit_status (fst (run (sysexits_env (Inr plain_options) (None, 0)) (init False))) = Some 0
   \<and> fst (run (sysexits_env (Inr plain_options) (Some KeyboardInterrupt, 3)) (init False))
       \<in> {Some (SystemExit 70), Some (SystemExit 75), Some (SystemExit 74),
           Some KeyboardInterrupt}"
  using
    run_return_code [OF self_get_options_sysexits [of "(None, 3)"], of 3]
    run_return_code [OF self_get_options_sysexits [of "(None, 0)"], of 0]
    run_return_code [OF self_get_options_sysexits [of "(Some KeyboardInterrupt, 3)"],
                     of 3 KeyboardInterrupt]
  by (simp add: sysexits_env_sel)

section \<open>Properties of option registration\<close>

lemma set_dest_keeps:
  assumes "set_dest pargs kw = Inr kw1" and "k \<noteq> ''dest''"
  shows "kw1 k = kw k"
  using assms by (auto simp: set_dest_def split: if_splits sum.splits)

lemma append_default_keeps:
  assumes "append_default kw = Inr kw1" and "k \<noteq> ''help''"
  shows "kw1 k = kw k"
  using assms
  by (auto simp: append_default_def Let_def split: option.splits if_splits pyval.splits)

lemma drop_type_result:
  assumes "drop_type kw = Inr kw1" and "kw ''choices'' \<noteq> None"
  shows "kw1 ''type'' = None \<and> kw1 ''choices'' = kw ''choices'' \<and> kw ''type'' \<noteq> None"
  using assms by (auto simp: drop_type_def split: if_splits)

text \<open>
  C9: whenever \<^verbatim>\<open>add_value_option\<close> is called with a \<^verbatim>\<open>choices\<close> keyword and registers
  the option, the call had a \<^verbatim>\<open>type\<close> keyword, and the keyword arguments handed to
  \<^verbatim>\<open>add_argument\<close> have no \<^verbatim>\<open>type\<close> and the \<^verbatim>\<open>choices\<close> of the call.
\<close>

theorem add_value_option_choices_drops_type:
  assumes "kw ''choices'' \<noteq> None" and "add_value_option p pargs kw = Inr p'"
  shows "\<exists>kw'. p' = p @ [(butlast pargs, kw')]
           \<and> kw' ''type'' = None
           \<and> kw' ''choices'' = kw ''choices''
           \<and> kw ''type'' \<noteq> None"
proof -
  from assms(2) obtain kw1 kw2 kw3 where
    d: "set_dest pargs (kw(''metavar'' \<mapsto> PStr (last pargs))) = Inr kw1"
    and a: "append_default kw1 = Inr kw2"
    and t: "drop_type kw2 = Inr kw3"
    and p: "p' = p @ [(butlast pargs, kw3)]"
    by (auto simp: add_value_option_def add_argument_def split: if_splits sum.splits)
  have c: "kw2 ''choices'' = kw ''choices''"
    using set_dest_keeps [OF d, of "''choices''"] append_default_keeps [OF a, of "''choices''"]
    by simp
  have ty: "kw2 ''type'' = kw ''type''"
    using set_dest_keeps [OF d, of "''type''"] append_default_keeps [OF a, of "''type''"]
    by simp
  from c assms(1) have "kw2 ''choices'' \<noteq> None"
    by simp
  from drop_type_result [OF t this] c ty p show ?thesis
    by simp
qed

lemma add_value_option_format:
  "add_value_option [] [''-o'', ''--output-format'', ''FORMAT'']
     (format_kwargs(''type'' \<mapsto> PType ''str''))
   = Inr [([''-o'', ''--output-format''],
           format_kwargs(''type'' \<mapsto> PType ''str'', ''metavar'' \<mapsto> PStr ''FORMAT'',
             ''dest'' \<mapsto> PStr ''output_format'',
             ''help'' \<mapsto> PStr ''output format [json]'', ''type'' := None))]"
  by (simp add: add_value_option_def set_dest_def derive_dest_def append_default_def
      drop_type_def add_argument_def format_kwargs_def)

lemma format_kwargs_sel:
  "format_kwargs ''choices'' = Some (PList [PStr ''json'', PStr ''yaml''])"
  "format_kwargs ''type'' = None"
  "format_kwargs ''dest'' = None"
  "format_kwargs ''default'' = Some (PStr ''json'')"
  "format_kwargs ''help'' = Some (PStr ''output format'')"
  by (simp_all add: format_kwargs_def)

theorem add_value_option_choices_drops_type_witness:
  "(format_kwargs(''type'' \<mapsto> PType ''str'')) ''choices'' \<noteq> None
   \<and> (\<exists>kw'. add_value_option [] [''-o'', ''--output-format'', ''FORMAT'']
              (format_kwargs(''type'' \<mapsto> PType ''str''))
            = Inr [([''-o'', ''--output-format''], kw')]
          \<and> kw' ''type'' = None
          \<and> kw' ''choices'' = Some (PList [PStr ''json'', PStr ''yaml'']))"
proof -
  have c: "(format_kwargs(''type'' \<mapsto> PType ''str'')) ''choices'' \<noteq> None"
    by (simp add: format_kwargs_sel)
  from add_value_option_choices_drops_type [OF c add_value_option_format] c
  show ?thesis
    by (simp add: add_value_option_format format_kwargs_sel)
qed

lemma derive_dest_long:
  assumes "\<exists>a \<in> set pargs. prefix ''--'' a"
  shows "\<exists>d. derive_dest pargs = Inr d"
proof -
  from assms have "filter (\<lambda>a. prefix ''--'' a) pargs \<noteq> []"
    by (simp add: filter_empty_conv)
  then show ?thesis
    by (cases "filter (\<lambda>a. prefix ''--'' a) pargs") (simp_all add: derive_dest_def)
qed

lemma drop_type_missing:
  assumes "kw ''choices'' \<noteq> None" and "kw ''type'' = None"
  shows "drop_type kw = Inl (KeyError ''type'')"
  using assms by (simp add: drop_type_def)

text \<open>
  C10: a call of \<^verbatim>\<open>add_value_option\<close> with a \<^verbatim>\<open>choices\<close> keyword and no \<^verbatim>\<open>type\<close> keyword
  never registers the option: it raises. When the statements before the deletion
  complete (there is a positional argument, a \<^verbatim>\<open>dest\<close> or a long option name, and a
  string \<^verbatim>\<open>help\<close> where a true \<^verbatim>\<open>default\<close> is given) the exception is \<^verbatim>\<open>KeyError('type')\<close>.
\<close>

theorem add_value_option_choices_without_type:
  assumes "kw ''choices'' \<noteq> None" and "kw ''type'' = None"
  shows "isl (add_value_option p pargs kw)
         \<and> (pargs \<noteq> []
              \<and> (kw ''dest'' \<noteq> None \<or> (\<exists>a \<in> set pargs. prefix ''--'' a))
              \<and> (\<forall>d. kw ''default'' = Some d \<and> truthy d \<longrightarrow> (\<exists>h. kw ''help'' = Some (PStr h)))
            \<longrightarrow> add_value_option p pargs kw = Inl (KeyError ''type''))"
proof (intro conjI impI)
  have miss: "drop_type kw2 = Inl (KeyError ''type'')"
    if d: "set_dest pargs (kw(''metavar'' \<mapsto> PStr (last pargs))) = Inr kw1"
      and a: "append_default kw1 = Inr kw2" for kw1 kw2
  proof -
    have "kw2 ''choices'' = kw ''choices''" "kw2 ''type'' = kw ''type''"
      using set_dest_keeps [OF d, of "''choices''"] append_default_keeps [OF a, of "''choices''"]
        set_dest_keeps [OF d, of "''type''"] append_default_keeps [OF a, of "''type''"]
      by simp_all
    with assms show ?thesis
      by (simp add: drop_type_missing)
  qed
  show "isl (add_value_option p pargs kw)"
    using miss by (auto simp: add_value_option_def split: sum.splits)
  assume wf: "pargs \<noteq> []
      \<and> (kw ''dest'' \<noteq> None \<or> (\<exists>a \<in> set pargs. prefix ''--'' a))
      \<and> (\<forall>d. kw ''default'' = Some d \<and> truthy d \<longrightarrow> (\<exists>h. kw ''help'' = Some (PStr h)))"
  let ?kw0 = "kw(''metavar'' \<mapsto> PStr (last pargs))"
  have "\<exists>kw1. set_dest pargs ?kw0 = Inr kw1"
  proof (cases "kw ''dest''")
    case None
    with wf derive_dest_long [of pargs] obtain d where "derive_dest pargs = Inr d"
      by blast
    with None show ?thesis
      by (simp add: set_dest_def)
  next
    case (Some v)
    then show ?thesis
      by (simp add: set_dest_def)
  qed
  then obtain kw1 where d: "set_dest pargs ?kw0 = Inr kw1"
    by blast
  have "kw1 ''default'' = kw ''default''" "kw1 ''help'' = kw ''help''"
    using set_dest_keeps [OF d, of "''default''"] set_dest_keeps [OF d, of "''help''"]
    by simp_all
  with wf have "\<exists>kw2. append_default kw1 = Inr kw2"
    by (cases "kw ''default''") (auto simp: append_default_def Let_def)
  then obtain kw2 where a: "append_default kw1 = Inr kw2"
    by blast
  from wf d a miss [OF d a] show "add_value_option p pargs kw = Inl (KeyError ''type'')"
    by (simp add: add_value_option_def)
qed

theorem add_value_option_choices_without_type_witness:
  "format_kwargs ''choices'' \<noteq> None \<and> format_kwargs ''type'' = None
   \<and> add_value_option [] [''-o'', ''--output-format'', ''FORMAT''] format_kwargs
       = Inl (KeyError ''type'')"
proof -
  have c: "format_kwargs ''choices'' \<noteq> None" and t: "format_kwargs ''type'' = None"
    by (simp_all add: format_kwargs_sel)
  from add_value_option_choices_without_type
         [OF c t, of "[]" "[''-o'', ''--output-format'', ''FORMAT'']"] c t
  show ?thesis
    by (simp add: format_kwargs_sel)
qed

section \<open>Properties of the RPC statistics\<close>

lemma py_round_zero: "py_round 0 n = 0"
  by (simp add: py_round_def round_half_even_def)

lemma str_int_zero: "str_int 0 = ''0''"
  by (simp add: str_int_def digit_char_def)

text \<open>
  C8: when the three counters and the second sample of the response-time summary read
  zero, \<^verbatim>\<open>rpc_stats\<close> raises nothing and returns the sentence that starts with
  \<^verbatim>\<open>0 requests\<close> and renders the zero size, the zero time and the zero size again,
  whatever \<^verbatim>\<open>fmt.human_size\<close> and the float rendering make of zero.
\<close>

theorem rpc_stats_zero:
  "rpc_stats human_size float_str
     \<lparr> request_counter = 0, request_size_counter = 0,
       response_time_summary = count # 0 # created, response_size_counter = 0 \<rparr>
   = Inr (''0 requests ('' @ human_size 0 @ '') in '' @ float_str 0
          @ ''s (repsonse '' @ human_size 0 @ '')'')
   \<and> (\<exists>s. rpc_stats human_size float_str
     \<lparr> request_counter = 0, request_size_counter = 0,
       response_time_summary = count # 0 # created, response_size_counter = 0 \<rparr> = Inr s
       \<and> prefix ''0 requests'' s)"
  by (simp add: rpc_stats_def py_int_def py_round_zero str_int_zero)



theorem rpc_stats_zero_witness:
  "rpc_stats (\<lambda>x. ''   0 bytes'') (\<lambda>x. ''0.0'')
     \<lparr> request_counter = 0, request_size_counter = 0,
       response_time_summary = [0, 0, 1767225600], response_size_counter = 0 \<rparr>
   = Inr ''0 requests (   0 bytes) in 0.0s (repsonse    0 bytes)''"
  using rpc_stats_zero [of "\<lambda>x. ''   0 bytes''" "\<lambda>x. ''0.0''" 0 "[1767225600]"]
  by simp

end
